theory Spec2Isabelle
  imports Complex_Main "HOL-Library.Sublist"
begin

section \<open>Python values shared by all modules\<close>

text \<open>
  Exceptions are values.  Only the exception classes that the modelled code can meet are
  listed; \<open>OtherException\<close> stands for any further subclass of \<open>Exception\<close> raised by a
  library call (its argument is the message).  Python \<open>int\<close> is \<open>int\<close>; Python \<open>float\<close>
  is idealised as \<open>real\<close> (rounding of the binary representation is not modelled).
  Text is \<open>string\<close>, a \<open>char\<close> standing for the code point of the same number: the
  model covers texts whose code points are below 256, and \<open>lower\<close> and \<open>isspace\<close> are
  those of \<open>str\<close> on these code points.
\<close>

datatype py_error =
    ZeroDivisionError
  | KeyError string
  | AttributeError string
  | NameError string
  | ValueError string
  | TooManyRequests
  | RecursionError
  | OtherException string

type_synonym 'a result = "py_error + 'a"

definition py_truediv :: "int \<Rightarrow> int \<Rightarrow> real result" where
  "py_truediv a b = (if b = 0 then Inl ZeroDivisionError else Inr (real_of_int a / real_of_int b))"

definition getitem :: "(string \<rightharpoonup> 'v) \<Rightarrow> string \<Rightarrow> 'v result" where
  "getitem d k = (case d k of None \<Rightarrow> Inl (KeyError k) | Some v \<Rightarrow> Inr v)"

text \<open>\<open>p in t\<close> on strings: \<open>p\<close> occurs in \<open>t\<close> as a contiguous block.\<close>

fun startswith :: "string \<Rightarrow> string \<Rightarrow> bool" where
  "startswith t [] = True"
| "startswith [] (p # ps) = False"
| "startswith (c # cs) (p # ps) = (c = p \<and> startswith cs ps)"

fun py_in :: "string \<Rightarrow> string \<Rightarrow> bool" where
  "py_in p [] = (p = [])"
| "py_in p (c # cs) = (startswith (c # cs) p \<or> py_in p cs)"

definition lower_char :: "char \<Rightarrow> char" where
  "lower_char c =
     (let n = (of_char c :: nat) in
      if (65 \<le> n \<and> n \<le> 90) \<or> (192 \<le> n \<and> n \<le> 222 \<and> n \<noteq> 215) then char_of (n + 32) else c)"

definition lower :: "string \<Rightarrow> string" where
  "lower t = map lower_char t"

text \<open>\<open>str.split()\<close> without arguments cuts at runs of white space; only the number of
  pieces is used by the code.\<close>

definition isspace :: "char \<Rightarrow> bool" where
  "isspace c =
     (let n = (of_char c :: nat) in
      n = 32 \<or> (9 \<le> n \<and> n \<le> 13) \<or> (28 \<le> n \<and> n \<le> 31) \<or> n = 133 \<or> n = 160)"

fun split_count :: "bool \<Rightarrow> string \<Rightarrow> nat" where
  "split_count inword [] = 0"
| "split_count inword (c # cs) =
     (if isspace c then split_count False cs
      else (if inword then 0 else 1) + split_count True cs)"

section \<open>X_profile_data: the post to feature-row transformation\<close>

record timestamp =
  epoch :: int
  hour_of :: nat
  weekday_name :: string

record tweet =
  tweet_text :: string
  created_at :: timestamp
  public_metrics :: "string \<rightharpoonup> int"

record feature_row =
  row_text :: string
  row_created_at :: timestamp
  hour :: nat
  day_of_week :: string
  likes :: int
  retweets :: int
  replies :: int
  quotes :: int
  engagement :: int
  word_count :: nat
  has_hashtags :: bool
  has_mentions :: bool
  has_links :: bool
  is_thread :: bool
  engagement_rate :: real

text \<open>One iteration of the loop of \<open>tweets_to_dataframe\<close>.  The dictionary look-ups happen
  in the order of the source; the first one that fails ends the function.\<close>

definition tweet_row :: "tweet \<Rightarrow> feature_row result" where
  "tweet_row tw =
    (case getitem (public_metrics tw) ''like_count'' of Inl e \<Rightarrow> Inl e | Inr lc \<Rightarrow>
     case getitem (public_metrics tw) ''retweet_count'' of Inl e \<Rightarrow> Inl e | Inr rc \<Rightarrow>
     case getitem (public_metrics tw) ''reply_count'' of Inl e \<Rightarrow> Inl e | Inr pc \<Rightarrow>
     case getitem (public_metrics tw) ''quote_count'' of Inl e \<Rightarrow> Inl e | Inr qc \<Rightarrow>
     (let eng = lc + rc + pc + qc;
          t = tweet_text tw
      in case py_truediv eng (max lc 1) of Inl e \<Rightarrow> Inl e | Inr rate \<Rightarrow>
         Inr \<lparr> row_text = t,
               row_created_at = created_at tw,
               hour = hour_of (created_at tw),
               day_of_week = weekday_name (created_at tw),
               likes = lc, retweets = rc, replies = pc, quotes = qc,
               engagement = eng,
               word_count = split_count False t,
               has_hashtags = py_in ''#'' t,
               has_mentions = py_in ''@'' t,
               has_links = (py_in ''http'' t \<or> py_in ''https'' t),
               is_thread = (startswith t ''1/'' \<or> py_in ''1/'' (take 10 t)),
               engagement_rate = rate \<rparr>))"

fun collect_rows :: "tweet list \<Rightarrow> feature_row list result" where
  "collect_rows [] = Inr []"
| "collect_rows (tw # tws) =
     (case tweet_row tw of Inl e \<Rightarrow> Inl e | Inr r \<Rightarrow>
      case collect_rows tws of Inl e \<Rightarrow> Inl e | Inr rs \<Rightarrow> Inr (r # rs))"

text \<open>The table: its rows in fetch order and the \<open>content_category\<close> column, which is
  absent until it is assigned.\<close>

record dataframe =
  rows :: "feature_row list"
  content_category :: "string list option"

definition tweets_to_dataframe :: "tweet list \<Rightarrow> dataframe result" where
  "tweets_to_dataframe tweets =
    (case collect_rows tweets of Inl e \<Rightarrow> Inl e | Inr data \<Rightarrow>
     if data = [] then Inl (KeyError ''created_at'')
     else Inr \<lparr> rows = data, content_category = None \<rparr>)"

section \<open>content_agent: the categorizer\<close>

definition educational_patterns :: "string list" where
  "educational_patterns =
     [''how to'', ''guide'', ''tutorial'', ''learn'', ''tip'', ''advice'',
      ''here'' @ [CHR 0x27] @ ''s'', ''steps'']"

definition personal_patterns :: "string list" where
  "personal_patterns =
     [''i '', ''my '', ''me '', ''personal'', ''story'', ''experience'', ''feeling'', ''today'']"

definition promotional_patterns :: "string list" where
  "promotional_patterns =
     [''buy'', ''sale'', ''course'', ''product'', ''launch'', ''offer'', ''discount'',
      ''link in bio'']"

definition opinion_patterns :: "string list" where
  "opinion_patterns =
     [''think'', ''believe'', ''opinion'', ''hot take'', ''unpopular'', ''controversial'']"

definition news_patterns :: "string list" where
  "news_patterns = [''breaking'', ''just announced'', ''update'', ''news'', ''happening now'']"

text \<open>\<open>any(pattern in text_lower for pattern in patterns)\<close>\<close>

definition any_in :: "string list \<Rightarrow> string \<Rightarrow> bool" where
  "any_in patterns text_lower = list_ex (\<lambda>pattern. py_in pattern text_lower) patterns"

definition categorize_tweet :: "string \<Rightarrow> string" where
  "categorize_tweet t =
    (let text_lower = lower t in
     if any_in educational_patterns text_lower then ''Educational''
     else if any_in personal_patterns text_lower then ''Personal''
     else if any_in promotional_patterns text_lower then ''Promotional''
     else if any_in opinion_patterns text_lower then ''Opinion/Commentary''
     else if any_in news_patterns text_lower then ''News/Updates''
     else ''General'')"

text \<open>The same procedure as the specification words it: an ordered list of
  (label, pattern set) pairs, the first pair with a match decides, \<open>General\<close> otherwise.
  A match is stated with \<^const>\<open>sublist\<close>, independently of \<^const>\<open>py_in\<close>.\<close>

definition spec_groups :: "(string \<times> string list) list" where
  "spec_groups =
     [(''Educational'', educational_patterns),
      (''Personal'', personal_patterns),
      (''Promotional'', promotional_patterns),
      (''Opinion/Commentary'', opinion_patterns),
      (''News/Updates'', news_patterns)]"

definition group_matches :: "string \<Rightarrow> string \<times> string list \<Rightarrow> bool" where
  "group_matches low g = (\<exists>p \<in> set (snd g). sublist p low)"

definition spec_categorize :: "string \<Rightarrow> string" where
  "spec_categorize t =
     (case find (group_matches (lower t)) spec_groups of
        None \<Rightarrow> ''General''
      | Some g \<Rightarrow> fst g)"

section \<open>The world outside the program\<close>

text \<open>
  The run is single-threaded, so its effects are threaded through one state: the clock
  (advanced only by \<open>time.sleep\<close> and by the duration of an outbound call), the log of calls
  issued to the profile-data provider with their issue times, the number of calls issued to
  the text-generation service, and a trace of the events the properties speak about.
  The environment fixes what the outside answers: the \<open>k\<close>-th call to a service gets the
  \<open>k\<close>-th answer, after the \<open>k\<close>-th duration.
\<close>

datatype endpoint = GetUser | GetUsersTweets

datatype event =
    ColumnAssigned string "string list"
  | LaneInvoked string
  | Printed string

record world =
  now :: real
  api_log :: "(endpoint \<times> real) list"
  llm_calls :: nat
  trace :: "event list"

record user =
  user_id :: int

record overall_metrics =
  average_engagement :: "real option"
  median_engagement :: "real option"
  best_performing :: "int option"
  engagement_consistency :: "real option"

record category_stats =
  cat_label :: string
  engagement_mean :: "real option"
  engagement_count :: nat
  engagement_max :: "int option"
  likes_mean :: "real option"
  replies_mean :: "real option"
  retweets_mean :: "real option"

record content_summary =
  total_tweets :: nat
  period_from :: "int option"
  period_to :: "int option"
  category_performance :: "category_stats list"
  top_tweets_by_category :: "(string \<times> string \<times> int) list"
  overall :: overall_metrics

text \<open>A prompt is kept as the data interpolated into its template; the fixed wording of
  the template is not part of the model.\<close>

datatype prompt =
    ThemePrompt string "string list"
  | EngagementPrompt string "(string \<times> int \<times> int \<times> int \<times> int) list"
  | StrategyPrompt string string string
  | AnalysisPrompt string content_summary

record env =
  env_bearer_token :: "string option"
  env_openai_api_key :: "string option"
  langchain_available :: bool
  langchain_components :: "unit result"
  openai_client :: "string option \<Rightarrow> unit result"
  api_get_user :: "nat \<Rightarrow> string \<Rightarrow> user option result"
  api_get_users_tweets :: "nat \<Rightarrow> int \<Rightarrow> int \<Rightarrow> tweet list option result"
  api_duration :: "nat \<Rightarrow> real"
  recursion_budget :: nat
  chat_completion :: "nat \<Rightarrow> nat \<Rightarrow> prompt \<Rightarrow> string result"
  chat_duration :: "nat \<Rightarrow> real"

definition sleep :: "real \<Rightarrow> world \<Rightarrow> world" where
  "sleep d w = w\<lparr> now := now w + d \<rparr>"

definition emit :: "event \<Rightarrow> world \<Rightarrow> world" where
  "emit e w = w\<lparr> trace := trace w @ [e] \<rparr>"

definition quoted :: "string \<Rightarrow> string" where
  "quoted s = CHR 0x27 # s @ [CHR 0x27]"

definition no_attribute :: "string \<Rightarrow> string \<Rightarrow> py_error" where
  "no_attribute cls name = AttributeError (quoted cls @ '' object has no attribute '' @ quoted name)"

definition str_of_error :: "py_error \<Rightarrow> string" where
  "str_of_error e =
     (case e of
        ZeroDivisionError \<Rightarrow> ''division by zero''
      | KeyError k \<Rightarrow> quoted k
      | AttributeError m \<Rightarrow> m
      | NameError m \<Rightarrow> m
      | ValueError m \<Rightarrow> m
      | TooManyRequests \<Rightarrow> ''429 Too Many Requests''
      | RecursionError \<Rightarrow> ''maximum recursion depth exceeded''
      | OtherException m \<Rightarrow> m)"

section \<open>content_agent: the standard lane\<close>

text \<open>Series statistics as pandas computes them.  \<open>None\<close> stands for a value that is not a
  finite number (\<open>nan\<close> or an infinity); \<open>std\<close> is the sample standard deviation, the
  squared deviations being divided by \<open>n - 1\<close>.\<close>

definition mean_of :: "int list \<Rightarrow> real option" where
  "mean_of xs = (if xs = [] then None else Some (real_of_int (sum_list xs) / real (length xs)))"

definition median_of :: "int list \<Rightarrow> real option" where
  "median_of xs =
     (let s = sort xs; n = length s in
      if n = 0 then None
      else if odd n then Some (real_of_int (s ! (n div 2)))
      else Some ((real_of_int (s ! (n div 2 - 1)) + real_of_int (s ! (n div 2))) / 2))"

definition max_of :: "int list \<Rightarrow> int option" where
  "max_of xs = (case xs of [] \<Rightarrow> None | x # r \<Rightarrow> Some (fold max r x))"

definition min_of :: "int list \<Rightarrow> int option" where
  "min_of xs = (case xs of [] \<Rightarrow> None | x # r \<Rightarrow> Some (fold min r x))"

definition std_of :: "int list \<Rightarrow> real option" where
  "std_of xs =
     (case mean_of xs of
        None \<Rightarrow> None
      | Some m \<Rightarrow>
          if length xs < 2 then None
          else Some (sqrt (sum_list (map (\<lambda>x. (real_of_int x - m)\<^sup>2) xs) / real (length xs - 1))))"

definition float_div :: "real option \<Rightarrow> real option \<Rightarrow> real option" where
  "float_div a b =
     (case a of None \<Rightarrow> None | Some x \<Rightarrow>
      case b of None \<Rightarrow> None | Some y \<Rightarrow> if y = 0 then None else Some (x / y))"

text \<open>\<open>.round(1)\<close>: to one decimal, a tie going to the even digit.\<close>

definition round1 :: "real \<Rightarrow> real" where
  "round1 x =
     (let y = x * 10; f = \<lfloor>y\<rfloor>; r = y - real_of_int f in
      real_of_int (if r < 1 / 2 then f else if 1 / 2 < r then f + 1 else if even f then f else f + 1) / 10)"

text \<open>\<open>groupby\<close> lists the groups that occur, ordered by their key; the keys are the labels
  of the categorizer, whose alphabetical order is fixed here.\<close>

definition sorted_labels :: "string list" where
  "sorted_labels =
     [''Educational'', ''General'', ''News/Updates'', ''Opinion/Commentary'', ''Personal'',
      ''Promotional'']"

definition rows_of_category :: "feature_row list \<Rightarrow> string list \<Rightarrow> string \<Rightarrow> feature_row list" where
  "rows_of_category rs cats c = map fst (filter (\<lambda>(r, k). k = c) (zip rs cats))"

definition group_stats :: "feature_row list \<Rightarrow> string list \<Rightarrow> string \<Rightarrow> category_stats" where
  "group_stats rs cats c =
     (let g = rows_of_category rs cats c in
      \<lparr> cat_label = c,
        engagement_mean = map_option round1 (mean_of (map engagement g)),
        engagement_count = length g,
        engagement_max = max_of (map engagement g),
        likes_mean = map_option round1 (mean_of (map likes g)),
        replies_mean = map_option round1 (mean_of (map replies g)),
        retweets_mean = map_option round1 (mean_of (map retweets g)) \<rparr>)"

text \<open>\<open>unique()\<close> keeps the first occurrence of every value; \<open>idxmax()\<close> is the first row
  that reaches the maximum.\<close>

definition unique :: "'a list \<Rightarrow> 'a list" where
  "unique xs = rev (remdups (rev xs))"

definition top_tweet :: "feature_row list \<Rightarrow> (string \<times> int) option" where
  "top_tweet g =
     (case max_of (map engagement g) of
        None \<Rightarrow> None
      | Some m \<Rightarrow>
          (case find (\<lambda>r. engagement r = m) g of
             None \<Rightarrow> None
           | Some r \<Rightarrow> Some (take 100 (row_text r) @ ''...'', engagement r)))"

definition top_tweets :: "feature_row list \<Rightarrow> string list \<Rightarrow> (string \<times> string \<times> int) list" where
  "top_tweets rs cats =
     concat (map (\<lambda>c. case top_tweet (rows_of_category rs cats c) of
                          None \<Rightarrow> []
                        | Some t \<Rightarrow> [(c, t)]) (unique cats))"

definition prepare_content_data :: "dataframe \<Rightarrow> world \<Rightarrow> content_summary \<times> dataframe \<times> world" where
  "prepare_content_data df w =
     (let content_categories = map (\<lambda>r. categorize_tweet (row_text r)) (rows df);
          df1 = df\<lparr> content_category := Some content_categories \<rparr>;
          w1 = emit (ColumnAssigned ''content_category'' content_categories) w;
          rs = rows df1;
          eng = map engagement rs;
          summary =
            \<lparr> total_tweets = length rs,
              period_from = min_of (map (\<lambda>r. epoch (row_created_at r)) rs),
              period_to = max_of (map (\<lambda>r. epoch (row_created_at r)) rs),
              category_performance =
                map (group_stats rs content_categories)
                    (filter (\<lambda>c. c \<in> set content_categories) sorted_labels),
              top_tweets_by_category = top_tweets rs content_categories,
              overall =
                \<lparr> average_engagement = mean_of eng,
                  median_engagement = median_of eng,
                  best_performing = max_of eng,
                  engagement_consistency = float_div (std_of eng) (mean_of eng) \<rparr> \<rparr>
      in (summary, df1, w1))"

definition create_analysis_prompt :: "content_summary \<Rightarrow> string \<Rightarrow> prompt" where
  "create_analysis_prompt content_data username = AnalysisPrompt username content_data"

text \<open>One round trip to the generation service: the call is counted, the clock advances
  by its duration, the answer is the environment's.\<close>

definition create_completion :: "env \<Rightarrow> nat \<Rightarrow> prompt \<Rightarrow> world \<Rightarrow> string result \<times> world" where
  "create_completion ev max_tokens p w =
     (let k = llm_calls w in
      (chat_completion ev k max_tokens p,
       w\<lparr> llm_calls := Suc k, now := now w + chat_duration ev k \<rparr>))"

definition gen_ai_analysis :: "env \<Rightarrow> prompt \<Rightarrow> world \<Rightarrow> string \<times> world" where
  "gen_ai_analysis ev p w =
     (case create_completion ev 1500 p w of
        (Inr content, w1) \<Rightarrow> (content, w1)
      | (Inl e, w1) \<Rightarrow> (''Error getting AI analysis: '' @ str_of_error e, w1))"

record standard_result =
  std_agent :: string
  std_username :: string
  analysis :: string
  data_summary :: content_summary
  std_timestamp :: real

definition content_agent_name :: string where
  "content_agent_name = ''Content Analysis Agent''"

definition analyze_content_strategy ::
    "env \<Rightarrow> dataframe \<Rightarrow> string \<Rightarrow> world \<Rightarrow> standard_result \<times> dataframe \<times> world" where
  "analyze_content_strategy ev tweets_df username w =
     (let w0 = emit (LaneInvoked ''standard'') w;
          (content_data, df1, w1) = prepare_content_data tweets_df w0;
          p = create_analysis_prompt content_data username;
          (ai_insights, w2) = gen_ai_analysis ev p w1
      in (\<lparr> std_agent = content_agent_name,
             std_username = username,
             analysis = ai_insights,
             data_summary = content_data,
             std_timestamp = now w2 \<rparr>, df1, w2))"

section \<open>langchain_agent: the enhanced lane\<close>

text \<open>Python names may begin with an underscore, constants here may not: the methods
  \<open>_enhanced_openai_analysis\<close>, \<open>_call_openai\<close> and \<open>_rate_limited_request\<close> lose theirs.\<close>

record langchain_agent =
  lc_name :: string
  langchain_enabled :: bool

definition langchain_agent_init :: "env \<Rightarrow> langchain_agent result" where
  "langchain_agent_init ev =
     (let key = env_openai_api_key ev in
      if key = None \<or> key = Some [] then
        Inl (ValueError ''OpenAI API key not found. Please set OPENAI_API_KEY in your .env file'')
      else
        case openai_client ev key of
          Inl e \<Rightarrow> Inl e
        | Inr _ \<Rightarrow>
            Inr \<lparr> lc_name = ''Enhanced Content Analysis Agent'',
                  langchain_enabled =
                    (if langchain_available ev
                     then (case langchain_components ev of Inl e \<Rightarrow> False | Inr _ \<Rightarrow> True)
                     else False) \<rparr>)"

record error_marker =
  err_agent :: string
  err_username :: string
  error :: string
  err_timestamp :: real

record enhanced_analysis =
  enh_agent :: string
  enh_username :: string
  enh_timestamp :: real
  theme_analyses :: "(string \<times> string) list"
  recommendations :: string
  document_count :: nat
  analysis_type :: string

text \<open>The two shapes of the dictionary the enhanced lane returns: the one with the key
  \<open>error\<close>, and the one with the analysis.\<close>

datatype enhanced_result = Failed error_marker | Analysed enhanced_analysis

fun has_error_key :: "enhanced_result \<Rightarrow> bool" where
  "has_error_key (Failed m) = True"
| "has_error_key (Analysed a) = False"

definition call_openai :: "env \<Rightarrow> prompt \<Rightarrow> world \<Rightarrow> string \<times> world" where
  "call_openai ev p w =
     (case create_completion ev 1000 p w of
        (Inr content, w1) \<Rightarrow> (content, w1)
      | (Inl e, w1) \<Rightarrow> (''Analysis error: '' @ str_of_error e, w1))"

definition enhanced_openai_analysis ::
    "langchain_agent \<Rightarrow> env \<Rightarrow> dataframe \<Rightarrow> string \<Rightarrow> world \<Rightarrow> enhanced_analysis result \<times> world" where
  "enhanced_openai_analysis self ev tweets_df username w =
     (let tweet_texts = map row_text (rows tweets_df);
          engagement_data =
            map (\<lambda>r. (row_text r, engagement r, likes r, retweets r, replies r)) (rows tweets_df);
          (themes, w1) = call_openai ev (ThemePrompt username (take 10 tweet_texts)) w;
          (eng, w2) = call_openai ev (EngagementPrompt username (take 5 engagement_data)) w1;
          (recs, w3) = call_openai ev (StrategyPrompt username (take 500 themes) (take 500 eng)) w2
      in (Inr \<lparr> enh_agent = lc_name self,
                 enh_username = username,
                 enh_timestamp = now w3,
                 theme_analyses = [(''themes'', themes), (''engagement'', eng)],
                 recommendations = recs,
                 document_count = length (rows tweets_df),
                 analysis_type = ''Enhanced OpenAI'' \<rparr>, w3))"

text \<open>Attribute look-up on an agent.  \<open>agent_attributes\<close> lists every name the class body
  defines with \<open>def\<close> and every name \<open>__init__\<close> assigns on \<open>self\<close>; \<open>module_globals\<close>
  lists every name the module binds at top level (imports, the flag, the class).  Of the
  methods, only \<open>_enhanced_openai_analysis\<close> can be applied to a table and a handle the
  way \<open>analyze_content_with_langchain\<close> applies the method it selects.\<close>

definition agent_attributes :: "string list" where
  "agent_attributes =
     [''__init__'', ''create_document_store'', ''analyze_content_themes'',
      ''generate_content_recommendations'', ''analyze_content_with_langchain'',
      ''_enhanced_openai_analysis'', ''_call_openai'', ''search_similar_content'',
      ''analyze_engagement_patterns'',
      ''openai_api_key'', ''client'', ''name'', ''langchain_enabled'', ''llm'', ''embeddings'',
      ''text_splitter'']"

definition module_globals :: "string list" where
  "module_globals =
     [''os'', ''pd'', ''datetime'', ''Counter'', ''re'', ''OpenAI'', ''load_dotenv'', ''json'',
      ''List'', ''Dict'', ''Any'', ''Document'', ''OpenAIEmbeddings'', ''ChatOpenAI'',
      ''RecursiveCharacterTextSplitter'', ''FAISS'', ''LANGCHAIN_AVAILABLE'',
      ''LangChainContentAgent'']"

type_synonym analysis_method =
  "langchain_agent \<Rightarrow> env \<Rightarrow> dataframe \<Rightarrow> string \<Rightarrow> world \<Rightarrow> enhanced_analysis result \<times> world"

definition analysis_methods :: "string \<rightharpoonup> analysis_method" where
  "analysis_methods = [''_enhanced_openai_analysis'' \<mapsto> enhanced_openai_analysis]"

definition getattr_method :: "string \<Rightarrow> analysis_method result" where
  "getattr_method name =
     (if name \<notin> set agent_attributes then
        Inl (no_attribute ''LangChainContentAgent'' name)
      else
        case analysis_methods name of
          None \<Rightarrow> Inl (OtherException ''TypeError'')
        | Some m \<Rightarrow> Inr m)"

definition analyze_content_with_langchain ::
    "langchain_agent \<Rightarrow> env \<Rightarrow> dataframe \<Rightarrow> string \<Rightarrow> world \<Rightarrow> enhanced_result \<times> world" where
  "analyze_content_with_langchain self ev tweets_df username w =
     (let w0 = emit (LaneInvoked ''enhanced'') w;
          (r, w1) =
            (case getattr_method
                    (if langchain_enabled self then ''_langchain_analysis''
                     else ''_enhanced_openai_analysis'') of
               Inl e \<Rightarrow> (Inl e, w0)
             | Inr m \<Rightarrow> m self ev tweets_df username w0)
      in case r of
           Inr res \<Rightarrow> (Analysed res, w1)
         | Inl e \<Rightarrow>
             (Failed \<lparr> err_agent = lc_name self,
                       err_username = username,
                       error = str_of_error e,
                       err_timestamp = now w1 \<rparr>, w1))"

section \<open>X_profile_data: the rate-limited client\<close>

record x_tweets =
  bearer_token :: "string option"
  initialised :: bool
  last_request_time :: real
  min_delay :: real

text \<open>\<open>__init__\<close> returns early when no token is configured, leaving the instance without
  \<open>last_request_time\<close> and \<open>min_delay\<close>: \<open>initialised\<close> records whether they were set.\<close>

definition x_tweets_init :: "env \<Rightarrow> x_tweets" where
  "x_tweets_init ev =
     (let tok = env_bearer_token ev in
      if tok = None \<or> tok = Some [] then
        \<lparr> bearer_token = tok, initialised = False, last_request_time = 0, min_delay = 0 \<rparr>
      else
        \<lparr> bearer_token = tok, initialised = True, last_request_time = 0, min_delay = 5 \<rparr>)"

definition rate_limited_request :: "x_tweets \<Rightarrow> world \<Rightarrow> (x_tweets \<times> world) result" where
  "rate_limited_request self w =
     (if \<not> initialised self then
        Inl (no_attribute ''X_tweets'' ''last_request_time'')
      else
        let current_time = now w;
            time_since_last = current_time - last_request_time self;
            w1 = (if time_since_last < min_delay self
                  then sleep (min_delay self - time_since_last) w else w)
        in Inr (self\<lparr> last_request_time := now w1 \<rparr>, w1))"

text \<open>An outbound call is logged, with its issue time, when the method of the provider
  client is invoked, and takes the duration the environment gives to the call of that
  index.

  Each retry after a rate-limit rejection is a call of the method from inside itself, so
  it runs one frame deeper than the attempt before it.  \<open>depth\<close> counts these nested
  retries, and \<open>recursion_budget\<close> is the number of them that the interpreter's recursion
  limit leaves room for: in an attempt nested deeper than that, the call into the
  provider client, which needs further frames of its own, ends in \<open>RecursionError\<close>.\<close>

definition issue :: "env \<Rightarrow> endpoint \<Rightarrow> world \<Rightarrow> world" where
  "issue ev ep w =
     w\<lparr> api_log := api_log w @ [(ep, now w)],
        now := now w + api_duration ev (length (api_log w)) \<rparr>"

definition client_get_user ::
    "nat \<Rightarrow> env \<Rightarrow> string \<Rightarrow> world \<Rightarrow> user option result \<times> world" where
  "client_get_user depth ev username w =
     (if recursion_budget ev < depth then Inl RecursionError
      else api_get_user ev (length (api_log w)) username,
      issue ev GetUser w)"

definition client_get_users_tweets ::
    "nat \<Rightarrow> env \<Rightarrow> int \<Rightarrow> int \<Rightarrow> world \<Rightarrow> tweet list option result \<times> world" where
  "client_get_users_tweets depth ev uid max_results w =
     (if recursion_budget ev < depth then Inl RecursionError
      else api_get_users_tweets ev (length (api_log w)) uid max_results,
      issue ev GetUsersTweets w)"


partial_function (option) get_users_tweets_at ::
    "nat \<Rightarrow> env \<Rightarrow> string \<Rightarrow> int \<Rightarrow> x_tweets \<Rightarrow> world \<Rightarrow> (tweet list result \<times> x_tweets \<times> world) option" where
  "get_users_tweets_at depth ev username max_tweets self w =
     (case rate_limited_request self w of
        Inl e \<Rightarrow> Some (Inl e, self, w)
      | Inr (self1, w1) \<Rightarrow>
          (case client_get_user depth ev username w1 of
             (Inl e, w2) \<Rightarrow>
               if e = TooManyRequests
               then get_users_tweets_at (Suc depth) ev username max_tweets self1 (sleep 900 w2)
               else Some (Inr [], self1, w2)
           | (Inr data, w2) \<Rightarrow>
               (let w3 = sleep 3 w2 in
                case data of
                  None \<Rightarrow> Some (Inr [], self1, w3)
                | Some u \<Rightarrow>
                    (case client_get_users_tweets depth ev (user_id u) max_tweets w3 of
                       (Inl e, w4) \<Rightarrow>
                         if e = TooManyRequests
                         then get_users_tweets_at (Suc depth) ev username max_tweets self1
                                (sleep 900 w4)
                         else Some (Inr [], self1, w4)
                     | (Inr tweets, w4) \<Rightarrow>
                         Some (Inr (case tweets of None \<Rightarrow> [] | Some ts \<Rightarrow> ts), self1, w4)))))"


definition get_users_tweets ::
    "env \<Rightarrow> string \<Rightarrow> int \<Rightarrow> x_tweets \<Rightarrow> world \<Rightarrow> (tweet list result \<times> x_tweets \<times> world) option" where
  "get_users_tweets ev username max_tweets self w =
     get_users_tweets_at 0 ev username max_tweets self w"

section \<open>cli: one analysis run\<close>

datatype lane_result = EnhancedLane enhanced_result | StandardLane standard_result

type_synonym analysis_result = "string \<rightharpoonup> lane_result"

text \<open>The body of \<open>get_profile_analysis\<close> after the fetch.  The first component is the
  value returned: \<open>None\<close> is Python's \<open>None\<close>.  Printing and saving the finished result are
  left to the presenter and not modelled.\<close>

definition analysis_steps ::
    "env \<Rightarrow> string \<Rightarrow> bool \<Rightarrow> tweet list \<Rightarrow> world \<Rightarrow> analysis_result option \<times> world" where
  "analysis_steps ev username use_langchain tweets w =
     (if tweets = [] then
        (None, emit (Printed ''No tweets found. Check username or API limits.'') w)
      else
        case tweets_to_dataframe tweets of
          Inl e \<Rightarrow> (None, emit (Printed (''Analysis failed: '' @ str_of_error e)) w)
        | Inr tweets_df \<Rightarrow>
            (case openai_client ev (env_openai_api_key ev) of
               Inl e \<Rightarrow> (None, emit (Printed (''Analysis failed: '' @ str_of_error e)) w)
             | Inr _ \<Rightarrow>
                 (let content_categories = map (\<lambda>r. categorize_tweet (row_text r)) (rows tweets_df);
                      df1 = tweets_df\<lparr> content_category := Some content_categories \<rparr>;
                      w1 = emit (ColumnAssigned ''content_category'' content_categories) w;
                      (results, w2) =
                        (if use_langchain then
                           (case langchain_agent_init ev of
                              Inl e \<Rightarrow>
                                (Map.empty,
                                 emit (Printed (''Enhanced analysis error: '' @ str_of_error e)) w1)
                            | Inr agent \<Rightarrow>
                                (let (r, w') = analyze_content_with_langchain agent ev df1 username w1
                                 in ([''langchain'' \<mapsto> EnhancedLane r], w')))
                         else (Map.empty, w1));
                      (sr, df2, w3) = analyze_content_strategy ev df1 username w2
                  in (Some (results(''standard'' \<mapsto> StandardLane sr)), w3))))"

definition get_profile_analysis ::
    "env \<Rightarrow> string \<Rightarrow> int \<Rightarrow> bool \<Rightarrow> world \<Rightarrow> (analysis_result option \<times> world) option" where
  "get_profile_analysis ev username max_tweets use_langchain w =
     (let tweets_client = x_tweets_init ev in
      case get_users_tweets ev username max_tweets tweets_client w of
        None \<Rightarrow> None
      | Some (Inl e, c, w1) \<Rightarrow>
          Some (None, emit (Printed (''Analysis failed: '' @ str_of_error e)) w1)
      | Some (Inr tweets, c, w1) \<Rightarrow>
          Some (analysis_steps ev username use_langchain tweets w1))"

definition initial_world :: "real \<Rightarrow> world" where
  "initial_world t0 = \<lparr> now = t0, api_log = [], llm_calls = 0, trace = [] \<rparr>"

section \<open>Observations on a run\<close>

text \<open>The assignments to the \<open>content_category\<close> column recorded in a trace, the entry a
  finished run returned under a key, and whether a run returned a result at all.\<close>

fun column_writes :: "event list \<Rightarrow> string list list" where
  "column_writes [] = []"
| "column_writes (ColumnAssigned c vals # es) =
     (if c = ''content_category'' then vals # column_writes es else column_writes es)"
| "column_writes (LaneInvoked l # es) = column_writes es"
| "column_writes (Printed m # es) = column_writes es"



text \<open>Issue times that keep a distance of at least \<open>d\<close> from one to the next; the issue
  times of the \<open>get_user\<close> calls in a log (every attempt of either method begins with one,
  right after \<open>_rate_limited_request\<close>); and what holds of a client between two method
  calls: it is initialised with the delay 5, the \<open>get_user\<close> calls logged so far keep the
  distance 5, and the last of them was issued at \<open>last_request_time\<close>.\<close>

fun spaced :: "real \<Rightarrow> real list \<Rightarrow> bool" where
  "spaced d [] = True"
| "spaced d [t] = True"
| "spaced d (t # t' # ts) = (t + d \<le> t' \<and> spaced d (t' # ts))"

fun user_calls :: "(endpoint \<times> real) list \<Rightarrow> real list" where
  "user_calls [] = []"
| "user_calls ((GetUser, t) # cs) = t # user_calls cs"
| "user_calls ((GetUsersTweets, t) # cs) = user_calls cs"

definition client_inv :: "x_tweets \<Rightarrow> world \<Rightarrow> bool" where
  "client_inv self w =
     (initialised self \<and> min_delay self = 5 \<and>
      spaced 5 (user_calls (api_log w)) \<and>
      (user_calls (api_log w) \<noteq> [] \<longrightarrow> last (user_calls (api_log w)) = last_request_time self))"

section \<open>Sample inputs\<close>

definition sample_time :: timestamp where
  "sample_time = \<lparr> epoch = 1700000000, hour_of = 9, weekday_name = ''Monday'' \<rparr>"

definition tweet_no_likes :: tweet where
  "tweet_no_likes =
     \<lparr> tweet_text = ''My guide to growth #tips'',
       created_at = sample_time,
       public_metrics = [''like_count'' \<mapsto> 0, ''retweet_count'' \<mapsto> 3,
                         ''reply_count'' \<mapsto> 2, ''quote_count'' \<mapsto> 2] \<rparr>"

definition tweet_liked :: tweet where
  "tweet_liked =
     \<lparr> tweet_text = ''Breaking: launch day'',
       created_at = sample_time,
       public_metrics = [''like_count'' \<mapsto> 4, ''retweet_count'' \<mapsto> 1,
                         ''reply_count'' \<mapsto> 0, ''quote_count'' \<mapsto> 2] \<rparr>"

definition row_with :: "string \<Rightarrow> int \<Rightarrow> int \<Rightarrow> feature_row" where
  "row_with t lk rt =
     \<lparr> row_text = t, row_created_at = sample_time, hour = 9, day_of_week = ''Monday'',
       likes = lk, retweets = rt, replies = 0, quotes = 0, engagement = lk + rt,
       word_count = split_count False t, has_hashtags = False, has_mentions = False,
       has_links = False, is_thread = False,
       engagement_rate = real_of_int (lk + rt) / real_of_int (max lk 1) \<rparr>"

definition three_rows :: dataframe where
  "three_rows =
     \<lparr> rows = [row_with ''How to grow on Twitter: 5 tips'' 5 0,
               row_with ''Good morning'' 8 2,
               row_with ''Big news'' 10 5],
       content_category = None \<rparr>"

definition sample_user :: user where
  "sample_user = \<lparr> user_id = 42 \<rparr>"

definition sample_tweets :: "tweet list" where
  "sample_tweets = [tweet_no_likes, tweet_liked]"

text \<open>An environment in which every service answers at once and well; the others differ
  from it in one answer each.\<close>

definition quick_env :: env where
  "quick_env =
     \<lparr> env_bearer_token = Some ''token'',
       env_openai_api_key = Some ''key'',
       langchain_available = True,
       langchain_components = Inr (),
       openai_client = (\<lambda>k. Inr ()),
       api_get_user = (\<lambda>k u. Inr (Some sample_user)),
       api_get_users_tweets = (\<lambda>k uid m. Inr (Some sample_tweets)),
       api_duration = (\<lambda>k. 1),
       recursion_budget = 990,
       chat_completion = (\<lambda>k n p. Inr ''insight''),
       chat_duration = (\<lambda>k. 2) \<rparr>"




definition empty_env :: env where
  "empty_env = quick_env\<lparr> api_get_users_tweets := (\<lambda>k uid m. Inr None) \<rparr>"

definition full_agent :: langchain_agent where
  "full_agent = \<lparr> lc_name = ''Enhanced Content Analysis Agent'', langchain_enabled = True \<rparr>"

text \<open>The client and the world after one undisturbed fetch that started at time 100.\<close>

definition fetched_client :: x_tweets where
  "fetched_client =
     \<lparr> bearer_token = Some ''token'', initialised = True, last_request_time = 100, min_delay = 5 \<rparr>"

definition fetched_world :: world where
  "fetched_world =
     \<lparr> now = 105, api_log = [(GetUser, 100), (GetUsersTweets, 104)], llm_calls = 0, trace = [] \<rparr>"




section \<open>Properties of the transformation\<close>

text \<open>
  Claim C8.  The engagement rate of a post is its engagement divided by
  \<open>max(like_count, 1)\<close>.  The division never fails: no post, well-formed or not, makes
  \<open>tweet_row\<close> end in \<open>ZeroDivisionError\<close>, and a post that carries the four counts
  gets a row.  With no likes the rate is the engagement itself.
\<close>

theorem engagement_rate_never_divides_by_zero:
  "tweet_row tw \<noteq> Inl ZeroDivisionError \<and>
   (public_metrics tw ''like_count'' = Some lc \<and> public_metrics tw ''retweet_count'' = Some rc \<and>
    public_metrics tw ''reply_count'' = Some pc \<and> public_metrics tw ''quote_count'' = Some qc
    \<longrightarrow> (\<exists>r. tweet_row tw = Inr r \<and> engagement r = lc + rc + pc + qc \<and>
             engagement_rate r = real_of_int (lc + rc + pc + qc) / real_of_int (max lc 1) \<and>
             (lc = 0 \<longrightarrow> engagement_rate r = real_of_int (engagement r))))"
  by (auto simp: tweet_row_def getitem_def py_truediv_def Let_def split: option.splits)

theorem engagement_rate_never_divides_by_zero_witness:
  "\<exists>r. tweet_row tweet_no_likes = Inr r \<and> likes r = 0 \<and> engagement r = 7 \<and> engagement_rate r = 7"
  using engagement_rate_never_divides_by_zero [of tweet_no_likes 0 3 2 2]
  by (simp add: tweet_no_likes_def tweet_row_def getitem_def py_truediv_def)

text \<open>
  Claim C10.  When the four counts of a post are present and non-negative, its
  engagement rate is non-negative; when moreover it has at least one like, the rate is at
  least 1, the likes being one of the summands of the engagement.
\<close>

theorem engagement_rate_bounds:
  "public_metrics tw ''like_count'' = Some lc \<and> public_metrics tw ''retweet_count'' = Some rc \<and>
   public_metrics tw ''reply_count'' = Some pc \<and> public_metrics tw ''quote_count'' = Some qc \<and>
   0 \<le> lc \<and> 0 \<le> rc \<and> 0 \<le> pc \<and> 0 \<le> qc
   \<longrightarrow> (\<exists>r. tweet_row tw = Inr r \<and> 0 \<le> engagement_rate r \<and>
            (1 \<le> lc \<longrightarrow> 1 \<le> engagement_rate r))"
  by (auto simp: tweet_row_def getitem_def py_truediv_def Let_def max_def split: option.splits)

theorem engagement_rate_bounds_witness:
  "\<exists>r. tweet_row tweet_liked = Inr r \<and> likes r = 4 \<and> 1 \<le> engagement_rate r"
  using engagement_rate_bounds [of tweet_liked 4 1 0 2]
  by (simp add: tweet_liked_def tweet_row_def getitem_def py_truediv_def)

section \<open>Properties of the categorizer\<close>

lemma startswith_prefix: "startswith t p \<longleftrightarrow> prefix p t"
  by (induction t p rule: startswith.induct) auto

lemma py_in_sublist: "py_in p t \<longleftrightarrow> sublist p t"
  by (induction t) (auto simp: startswith_prefix sublist_Cons_right)

lemma group_matches_any_in: "group_matches low (l, ps) \<longleftrightarrow> any_in ps low"
  by (simp add: any_in_def group_matches_def list_ex_iff py_in_sublist)

text \<open>
  Claim C6.  The category of a text is the label of the first group, in the order
  Educational, Personal, Promotional, Opinion/Commentary, News/Updates, one of whose
  patterns occurs in the lower-cased text, and General when no group has one.  The
  category is a function of the text alone, and a text that matches both the Educational
  and the Personal patterns is Educational.
\<close>

theorem categorize_first_match:
  "categorize_tweet t = spec_categorize t \<and>
   (group_matches (lower t) (''Educational'', educational_patterns) \<and>
    group_matches (lower t) (''Personal'', personal_patterns)
      \<longrightarrow> categorize_tweet t = ''Educational'')"
  by (simp add: categorize_tweet_def spec_categorize_def spec_groups_def Let_def
        group_matches_any_in)

theorem categorize_first_match_witness:
  "group_matches (lower ''My guide to X'') (''Educational'', educational_patterns) \<and>
   group_matches (lower ''My guide to X'') (''Personal'', personal_patterns) \<and>
   categorize_tweet ''My guide to X'' = ''Educational'' \<and>
   spec_categorize ''My guide to X'' = ''Educational''"
proof -
  have e: "group_matches (lower ''My guide to X'') (''Educational'', educational_patterns)"
    unfolding group_matches_any_in by code_simp
  have p: "group_matches (lower ''My guide to X'') (''Personal'', personal_patterns)"
    unfolding group_matches_any_in by code_simp
  from categorize_first_match [of "''My guide to X''"] e p show ?thesis by auto
qed

section \<open>Properties of the standard lane's summary\<close>

lemma sqrt_25: "sqrt 25 = 5"
  by (rule real_sqrt_unique) simp_all

lemma overall_of_prepare:
  "overall (fst (prepare_content_data df w)) =
     \<lparr> average_engagement = mean_of (map engagement (rows df)),
       median_engagement = median_of (map engagement (rows df)),
       best_performing = max_of (map engagement (rows df)),
       engagement_consistency =
         float_div (std_of (map engagement (rows df))) (mean_of (map engagement (rows df))) \<rparr>"
  by (simp add: prepare_content_data_def Let_def)

lemma mean_5_10_15: "mean_of [5, 10, 15] = Some 10"
  by (simp add: mean_of_def)

lemma median_5_10_15: "median_of [5, 10, 15] = Some 10"
  by (simp add: median_of_def)

lemma max_5_10_15: "max_of [5, 10, 15] = Some 15"
  by (simp add: max_of_def)

lemma std_5_10_15: "std_of [5, 10, 15] = Some 5"
  by (simp add: std_of_def mean_5_10_15 sqrt_25)

lemma three_rows_eng: "map engagement (rows three_rows) = [5, 10, 15]"
  by (simp add: three_rows_def row_with_def)

text \<open>
  Claim C4, as stated, fails: for three rows with engagement 5, 10 and 15 the summary's
  consistency ratio is 0.5, not about 0.408.  The standard deviation the code takes is
  the sample one (\<open>Series.std\<close> divides by \<open>n - 1\<close>), which is 5 here; 0.408 is what the
  population deviation would give.
\<close>

theorem consistency_is_not_0408:
  "engagement_consistency (overall (fst (prepare_content_data three_rows (initial_world 0))))
     = Some (1 / 2)
   \<and> \<bar>(1 / 2 :: real) - 408 / 1000\<bar> > 9 / 100"
  by (simp add: overall_of_prepare three_rows_eng mean_5_10_15 std_5_10_15 float_div_def)

text \<open>
  Claim C4, amended.  For a table of exactly three rows with engagement 5, 10 and 15 the
  summary reports mean 10, median 10, maximum 15 and the consistency ratio 0.5
  (sample standard deviation 5 divided by the mean 10).
\<close>

theorem summary_of_5_10_15:
  "map engagement (rows df) = [5, 10, 15] \<longrightarrow>
   overall (fst (prepare_content_data df w)) =
     \<lparr> average_engagement = Some 10, median_engagement = Some 10,
       best_performing = Some 15, engagement_consistency = Some (1 / 2) \<rparr>"
  by (simp add: overall_of_prepare mean_5_10_15 median_5_10_15 max_5_10_15 std_5_10_15
        float_div_def)

theorem summary_of_5_10_15_witness:
  "map engagement (rows three_rows) = [5, 10, 15] \<and>
   overall (fst (prepare_content_data three_rows (initial_world 0))) =
     \<lparr> average_engagement = Some 10, median_engagement = Some 10,
       best_performing = Some 15, engagement_consistency = Some (1 / 2) \<rparr>"
  using summary_of_5_10_15 [of three_rows "initial_world 0"] three_rows_eng by simp

section \<open>Properties of the enhanced lane\<close>

lemma trace_call_openai: "call_openai ev p w = (t, w1) \<Longrightarrow> trace w1 = trace w"
  by (auto simp: call_openai_def create_completion_def Let_def split: sum.splits)

lemma trace_gen_ai_analysis: "gen_ai_analysis ev p w = (t, w1) \<Longrightarrow> trace w1 = trace w"
  by (auto simp: gen_ai_analysis_def create_completion_def Let_def split: sum.splits)

lemma trace_enhanced_openai_analysis:
  "enhanced_openai_analysis self ev df u w = (res, w') \<Longrightarrow> trace w' = trace w"
proof -
  assume run: "enhanced_openai_analysis self ev df u w = (res, w')"
  obtain t w1 where a: "call_openai ev (ThemePrompt u (take 10 (map row_text (rows df)))) w = (t, w1)"
    by (cases "call_openai ev (ThemePrompt u (take 10 (map row_text (rows df)))) w")
  obtain e w2 where b: "call_openai ev (EngagementPrompt u (take 5 (map (\<lambda>r. (row_text r, engagement r, likes r, retweets r, replies r)) (rows df)))) w1 = (e, w2)"
    by (cases "call_openai ev (EngagementPrompt u (take 5 (map (\<lambda>r. (row_text r, engagement r, likes r, retweets r, replies r)) (rows df)))) w1")
  obtain r w3 where c: "call_openai ev (StrategyPrompt u (take 500 t) (take 500 e)) w2 = (r, w3)"
    by (cases "call_openai ev (StrategyPrompt u (take 500 t) (take 500 e)) w2")
  have "w' = w3"
    using run by (simp add: enhanced_openai_analysis_def Let_def a b c)
  then show ?thesis
    using trace_call_openai [OF a] trace_call_openai [OF b] trace_call_openai [OF c] by simp
qed

lemma getattr_langchain_analysis:
  "getattr_method ''_langchain_analysis'' =
     Inl (no_attribute ''LangChainContentAgent'' ''_langchain_analysis'')"
  by (simp add: getattr_method_def agent_attributes_def)

lemma getattr_enhanced:
  "getattr_method ''_enhanced_openai_analysis'' = Inr enhanced_openai_analysis"
  by (simp add: getattr_method_def agent_attributes_def analysis_methods_def)

text \<open>
  Claim C3.  An agent whose \<open>langchain_enabled\<close> flag is set answers every table and
  every handle with the error marker: the method it selects, \<open>_langchain_analysis\<close>, is
  not an attribute of the class, the look-up fails and the failure is caught and recorded.
  No call to the generation service is made.  Neither \<open>PromptTemplate\<close> nor
  \<open>RetrievalQA\<close>, which the retrieval helpers mention, is bound in the module.
\<close>

theorem enabled_agent_returns_error_marker:
  "(langchain_enabled self \<longrightarrow>
      analyze_content_with_langchain self ev df u w =
        (Failed \<lparr> err_agent = lc_name self, err_username = u,
                  error = quoted ''LangChainContentAgent'' @ '' object has no attribute '' @
                          quoted ''_langchain_analysis'',
                  err_timestamp = now w \<rparr>,
         emit (LaneInvoked ''enhanced'') w))
   \<and> ''_langchain_analysis'' \<notin> set agent_attributes
   \<and> ''PromptTemplate'' \<notin> set module_globals
   \<and> ''RetrievalQA'' \<notin> set module_globals"
  by (simp add: analyze_content_with_langchain_def getattr_langchain_analysis Let_def
        str_of_error_def no_attribute_def emit_def agent_attributes_def module_globals_def)

theorem enabled_agent_returns_error_marker_witness:
  "langchain_agent_init quick_env = Inr full_agent \<and> langchain_enabled full_agent \<and>
   has_error_key (fst (analyze_content_with_langchain full_agent quick_env three_rows ''someone''
                         (initial_world 0)))"
proof -
  have a: "langchain_agent_init quick_env = Inr full_agent"
    by (simp add: langchain_agent_init_def quick_env_def full_agent_def)
  have b: "langchain_enabled full_agent"
    by (simp add: full_agent_def)
  from enabled_agent_returns_error_marker
         [of full_agent quick_env three_rows "''someone''" "initial_world 0"] a b
  show ?thesis by simp
qed


section \<open>Frame properties of the client\<close>

lemma column_writes_append: "column_writes (xs @ ys) = column_writes xs @ column_writes ys"
  by (induction xs rule: column_writes.induct) auto

lemma rate_limited_request_frame:
  "rate_limited_request self w = Inr (self1, w1) \<Longrightarrow>
     trace w1 = trace w \<and> llm_calls w1 = llm_calls w \<and> api_log w1 = api_log w"
  by (auto simp: rate_limited_request_def Let_def sleep_def split: if_splits)

lemma issue_frame [simp]:
  "trace (issue ev ep w) = trace w" "llm_calls (issue ev ep w) = llm_calls w"
  by (simp_all add: issue_def)

lemma sleep_frame [simp]:
  "trace (sleep d w) = trace w" "llm_calls (sleep d w) = llm_calls w"
  "api_log (sleep d w) = api_log w" "now (sleep d w) = now w + d"
  by (simp_all add: sleep_def)

lemma get_users_tweets_frame_aux:
  assumes "get_users_tweets_at d ev u m self w = Some y"
  shows "trace (snd (snd y)) = trace w \<and> llm_calls (snd (snd y)) = llm_calls w"
  using assms
proof (induction rule: get_users_tweets_at.raw_induct [rotated 1, consumes 1])
  case (1 fetch d ev u m self w y)
  show ?case
  proof (cases "rate_limited_request self w")
    case (Inl e)
    with "1.hyps" show ?thesis by auto
  next
    case (Inr p)
    obtain self1 w1 where p: "p = (self1, w1)" by (cases p)
    note fr = rate_limited_request_frame [OF Inr [unfolded p]]
    from "1.hyps" Inr p fr "1.IH" show ?thesis
      by (auto simp: client_get_user_def client_get_users_tweets_def Let_def
               split: sum.splits option.splits if_splits)
  qed
qed

lemma get_users_tweets_frame:
  "get_users_tweets ev u m self w = Some (r, self', w') \<Longrightarrow>
     trace w' = trace w \<and> llm_calls w' = llm_calls w"
  using get_users_tweets_frame_aux [of 0 ev u m self w "(r, self', w')"]
  by (simp add: get_users_tweets_def)

section \<open>Properties of one analysis run\<close>

lemma trace_analyze_content_with_langchain:
  assumes "analyze_content_with_langchain self ev df u w = (r, w')"
  shows "trace w' = trace w @ [LaneInvoked ''enhanced'']"
proof (cases "langchain_enabled self")
  case True
  with assms show ?thesis
    by (auto simp: analyze_content_with_langchain_def getattr_langchain_analysis Let_def emit_def)
next
  case False
  obtain res w1 where a: "enhanced_openai_analysis self ev df u (emit (LaneInvoked ''enhanced'') w) = (res, w1)"
    by (cases "enhanced_openai_analysis self ev df u (emit (LaneInvoked ''enhanced'') w)")
  have "w' = w1"
    using assms False a
    by (auto simp: analyze_content_with_langchain_def getattr_enhanced Let_def split: sum.splits)
  with trace_enhanced_openai_analysis [OF a] show ?thesis
    by (simp add: emit_def)
qed

lemma trace_analyze_content_strategy:
  assumes "analyze_content_strategy ev df u w = (sr, df', w')"
  shows "trace w' = trace w @ [LaneInvoked ''standard'',
           ColumnAssigned ''content_category'' (map (\<lambda>r. categorize_tweet (row_text r)) (rows df))]"
proof -
  obtain summary df1 w1 where a: "prepare_content_data df (emit (LaneInvoked ''standard'') w) = (summary, df1, w1)"
    by (cases "prepare_content_data df (emit (LaneInvoked ''standard'') w)")
  have w1: "trace w1 = trace w @ [LaneInvoked ''standard'',
           ColumnAssigned ''content_category'' (map (\<lambda>r. categorize_tweet (row_text r)) (rows df))]"
    using a by (auto simp: prepare_content_data_def Let_def emit_def)
  obtain t w2 where b: "gen_ai_analysis ev (create_analysis_prompt summary u) w1 = (t, w2)"
    by (cases "gen_ai_analysis ev (create_analysis_prompt summary u) w1")
  have "w' = w2"
    using assms a b by (simp add: analyze_content_strategy_def Let_def)
  with trace_gen_ai_analysis [OF b] w1 show ?thesis by simp
qed

lemma analysis_steps_empty:
  "analysis_steps ev u flag [] w =
     (None, emit (Printed ''No tweets found. Check username or API limits.'') w)"
  by (simp add: analysis_steps_def)

text \<open>What a completed run looks like.\<close>

lemma analysis_steps_completed:
  assumes run: "analysis_steps ev u flag tweets w = (Some res, w')"
  shows "\<exists>df. tweets_to_dataframe tweets = Inr df \<and>
           (\<exists>sr. res ''standard'' = Some (StandardLane sr)) \<and>
           (flag \<longrightarrow> (\<forall>a. langchain_agent_init ev = Inr a \<longrightarrow> (\<exists>r. res ''langchain'' = Some (EnhancedLane r)))) \<and>
           (flag \<longrightarrow> (\<forall>e. langchain_agent_init ev = Inl e \<longrightarrow> res ''langchain'' = None)) \<and>
           (\<not> flag \<longrightarrow> res ''langchain'' = None) \<and>
           column_writes (trace w') = column_writes (trace w) @
             [map (\<lambda>r. categorize_tweet (row_text r)) (rows df),
              map (\<lambda>r. categorize_tweet (row_text r)) (rows df)]"
proof -
  from run have ne: "tweets \<noteq> []"
    by (auto simp: analysis_steps_def)
  from run ne obtain df where df: "tweets_to_dataframe tweets = Inr df"
    by (cases "tweets_to_dataframe tweets") (auto simp: analysis_steps_def)
  from run ne df obtain x where cl: "openai_client ev (env_openai_api_key ev) = Inr x"
    by (cases "openai_client ev (env_openai_api_key ev)") (auto simp: analysis_steps_def)
  define cats where "cats = map (\<lambda>r. categorize_tweet (row_text r)) (rows df)"
  define df1 where "df1 = df\<lparr> content_category := Some cats \<rparr>"
  define w1 where "w1 = emit (ColumnAssigned ''content_category'' cats) w"
  have rows1: "rows df1 = rows df" by (simp add: df1_def)
  have tw1: "trace w1 = trace w @ [ColumnAssigned ''content_category'' cats]"
    by (simp add: w1_def emit_def)
  define lane where "lane =
     (if flag then
        (case langchain_agent_init ev of
           Inl e \<Rightarrow> (Map.empty, emit (Printed (''Enhanced analysis error: '' @ str_of_error e)) w1)
         | Inr agent \<Rightarrow>
             (let (r, w') = analyze_content_with_langchain agent ev df1 u w1
              in ([''langchain'' \<mapsto> EnhancedLane r], w')))
      else (Map.empty, w1))"
  obtain results w2 where lane: "lane = (results, w2)" by (cases lane)
  obtain sr df2 w3 where st: "analyze_content_strategy ev df1 u w2 = (sr, df2, w3)"
    by (cases "analyze_content_strategy ev df1 u w2")
  have unfolded: "analysis_steps ev u flag tweets w = (Some (results(''standard'' \<mapsto> StandardLane sr)), w3)"
    using ne df cl lane st unfolding lane_def w1_def df1_def cats_def
    by (auto simp: analysis_steps_def Let_def split: if_splits sum.splits prod.splits)
  with run have res: "res = results(''standard'' \<mapsto> StandardLane sr)" and w': "w' = w3"
    by simp_all
  have cw2: "column_writes (trace w2) = column_writes (trace w1)"
  proof (cases flag)
    case False
    with lane show ?thesis by (simp add: lane_def)
  next
    case True
    show ?thesis
    proof (cases "langchain_agent_init ev")
      case (Inl e)
      with True lane show ?thesis
        by (auto simp: lane_def emit_def column_writes_append)
    next
      case (Inr agent)
      obtain r wl where al: "analyze_content_with_langchain agent ev df1 u w1 = (r, wl)"
        by (cases "analyze_content_with_langchain agent ev df1 u w1")
      with True Inr lane have "w2 = wl" by (simp add: lane_def)
      with trace_analyze_content_with_langchain [OF al] show ?thesis
        by (simp add: column_writes_append)
    qed
  qed
  have keys: "(flag \<longrightarrow> (\<forall>a. langchain_agent_init ev = Inr a \<longrightarrow> (\<exists>r. results ''langchain'' = Some (EnhancedLane r))))
            \<and> (flag \<longrightarrow> (\<forall>e. langchain_agent_init ev = Inl e \<longrightarrow> results ''langchain'' = None))
            \<and> (\<not> flag \<longrightarrow> results ''langchain'' = None)"
    using lane by (auto simp: lane_def split: prod.splits)
  have cw3: "column_writes (trace w3) = column_writes (trace w2) @ [cats]"
    using trace_analyze_content_strategy [OF st] rows1
    by (simp add: column_writes_append cats_def)
  have "column_writes (trace w') = column_writes (trace w) @ [cats, cats]"
    using cw3 cw2 tw1 w' by (simp add: column_writes_append)
  with df keys res show ?thesis
    by (auto simp: cats_def)
qed

lemma fetch_quick:
  "get_users_tweets quick_env ''someone'' 10 (x_tweets_init quick_env) (initial_world 100) =
     Some (Inr sample_tweets, fetched_client, fetched_world)"
  unfolding get_users_tweets_def
  apply (subst get_users_tweets_at.simps)
  apply (simp add: quick_env_def x_tweets_init_def initial_world_def rate_limited_request_def
      client_get_user_def client_get_users_tweets_def issue_def sleep_def Let_def
      fetched_client_def fetched_world_def sample_user_def)
  done


lemma fetch_empty:
  "get_users_tweets empty_env ''someone'' 10 (x_tweets_init empty_env) (initial_world 100) =
     Some (Inr [], fetched_client, fetched_world)"
  unfolding get_users_tweets_def
  apply (subst get_users_tweets_at.simps)
  apply (simp add: empty_env_def quick_env_def x_tweets_init_def initial_world_def rate_limited_request_def
      client_get_user_def client_get_users_tweets_def issue_def sleep_def Let_def
      fetched_client_def fetched_world_def sample_user_def)
  done

lemma tweet_row_well_formed:
  "public_metrics tw ''like_count'' = Some lc \<Longrightarrow> public_metrics tw ''retweet_count'' = Some rc \<Longrightarrow>
   public_metrics tw ''reply_count'' = Some pc \<Longrightarrow> public_metrics tw ''quote_count'' = Some qc \<Longrightarrow>
   \<exists>r. tweet_row tw = Inr r \<and> row_text r = tweet_text tw"
  by (simp add: tweet_row_def getitem_def py_truediv_def Let_def)

lemma sample_rows:
  "\<exists>df. tweets_to_dataframe sample_tweets = Inr df \<and>
        map row_text (rows df) = [''My guide to growth #tips'', ''Breaking: launch day'']"
proof -
  obtain r1 where r1: "tweet_row tweet_no_likes = Inr r1" "row_text r1 = tweet_text tweet_no_likes"
    using tweet_row_well_formed [of tweet_no_likes 0 3 2 2] by (auto simp: tweet_no_likes_def)
  obtain r2 where r2: "tweet_row tweet_liked = Inr r2" "row_text r2 = tweet_text tweet_liked"
    using tweet_row_well_formed [of tweet_liked 4 1 0 2] by (auto simp: tweet_liked_def)
  have "tweets_to_dataframe sample_tweets = Inr \<lparr> rows = [r1, r2], content_category = None \<rparr>"
    by (simp add: tweets_to_dataframe_def sample_tweets_def r1 r2)
  moreover have "tweet_text tweet_no_likes = ''My guide to growth #tips''"
    by (simp add: tweet_no_likes_def)
  moreover have "tweet_text tweet_liked = ''Breaking: launch day''"
    by (simp add: tweet_liked_def)
  ultimately show ?thesis using r1 r2 by simp
qed

lemma sample_categories:
  "map categorize_tweet [''My guide to growth #tips'', ''Breaking: launch day''] =
     [''Educational'', ''Promotional'']"
  by code_simp

lemma analysis_steps_completes:
  "tweets \<noteq> [] \<Longrightarrow> tweets_to_dataframe tweets = Inr df \<Longrightarrow>
   openai_client ev (env_openai_api_key ev) = Inr x \<Longrightarrow>
   \<exists>res w'. analysis_steps ev u flag tweets w = (Some res, w')"
  by (simp add: analysis_steps_def Let_def split_beta)

lemma get_profile_analysis_completed:
  "get_profile_analysis ev u m flag w = Some (Some res, w') \<Longrightarrow>
   \<exists>tweets c w1. get_users_tweets ev u m (x_tweets_init ev) w = Some (Inr tweets, c, w1) \<and>
                 analysis_steps ev u flag tweets w1 = (Some res, w')"
  by (auto simp: get_profile_analysis_def Let_def split: option.splits sum.splits prod.splits)

text \<open>
  Claim C9.  When the fetch returns an empty list of posts, the run returns \<open>None\<close>
  after printing that no posts were found: nothing else is added to the trace (no lane is
  entered, no column is assigned) and no call goes to the generation service.
\<close>

theorem empty_fetch_ends_run:
  "get_users_tweets ev u m (x_tweets_init ev) w = Some (Inr [], c, w1) \<longrightarrow>
     (\<exists>w'. get_profile_analysis ev u m flag w = Some (None, w') \<and>
            trace w' = trace w @ [Printed ''No tweets found. Check username or API limits.''] \<and>
            llm_calls w' = llm_calls w)"
proof
  assume f: "get_users_tweets ev u m (x_tweets_init ev) w = Some (Inr [], c, w1)"
  from get_users_tweets_frame [OF f] have "trace w1 = trace w" "llm_calls w1 = llm_calls w"
    by simp_all
  with f show "\<exists>w'. get_profile_analysis ev u m flag w = Some (None, w') \<and>
            trace w' = trace w @ [Printed ''No tweets found. Check username or API limits.''] \<and>
            llm_calls w' = llm_calls w"
    by (simp add: get_profile_analysis_def analysis_steps_empty emit_def)
qed

theorem empty_fetch_ends_run_witness:
  "\<exists>w'. get_profile_analysis empty_env ''someone'' 10 True (initial_world 100) = Some (None, w') \<and>
        trace w' = [Printed ''No tweets found. Check username or API limits.''] \<and>
        llm_calls w' = 0"
  using empty_fetch_ends_run [of empty_env "''someone''" 10 "initial_world 100" fetched_client
          fetched_world True] fetch_empty
  by (simp add: initial_world_def)

lemma quick_run_completes:
  "\<exists>res w'. get_profile_analysis quick_env ''someone'' 10 flag (initial_world 100) = Some (Some res, w')"
proof -
  obtain df where df: "tweets_to_dataframe sample_tweets = Inr df" using sample_rows by blast
  have "openai_client quick_env (env_openai_api_key quick_env) = Inr ()"
    by (simp add: quick_env_def)
  from analysis_steps_completes [OF _ df this, of "''someone''" flag fetched_world]
  show ?thesis
    by (simp add: get_profile_analysis_def fetch_quick sample_tweets_def)
qed





lemma quick_run_writes:
  "map_option (column_writes \<circ> trace \<circ> snd)
     (get_profile_analysis quick_env ''someone'' 10 flag (initial_world 100)) =
   Some [[''Educational'', ''Promotional''], [''Educational'', ''Promotional'']]"
proof -
  obtain res w' where r: "get_profile_analysis quick_env ''someone'' 10 flag (initial_world 100) = Some (Some res, w')"
    using quick_run_completes by blast
  from get_profile_analysis_completed [OF r] fetch_quick
  have a: "analysis_steps quick_env ''someone'' flag sample_tweets fetched_world = (Some res, w')"
    by simp
  from analysis_steps_completed [OF a] obtain df
    where df: "tweets_to_dataframe sample_tweets = Inr df"
      and cw: "column_writes (trace w') = column_writes (trace fetched_world) @
             [map (\<lambda>r. categorize_tweet (row_text r)) (rows df),
              map (\<lambda>r. categorize_tweet (row_text r)) (rows df)]"
    by blast
  from sample_rows df have "map row_text (rows df) = [''My guide to growth #tips'', ''Breaking: launch day'']"
    by simp
  moreover have "map (\<lambda>r. categorize_tweet (row_text r)) (rows df) =
                   map categorize_tweet (map row_text (rows df))"
    by (simp add: comp_def)
  ultimately have "map (\<lambda>r. categorize_tweet (row_text r)) (rows df) = [''Educational'', ''Promotional'']"
    by (simp only: sample_categories)
  with cw r show ?thesis by (simp add: fetched_world_def)
qed

text \<open>
  Claim C5, as stated, fails: in a finished run over two posts the category column is
  assigned twice, not once.
\<close>

theorem category_column_assigned_twice_in_sample_run:
  "map_option (column_writes \<circ> trace \<circ> snd)
     (get_profile_analysis quick_env ''someone'' 10 False (initial_world 100)) =
   Some [[''Educational'', ''Promotional''], [''Educational'', ''Promotional'']]"
  by (rule quick_run_writes)

text \<open>
  Claim C5, amended.  Over one finished run the category column is assigned exactly
  twice: once by \<open>get_profile_analysis\<close> before the lanes and once more by
  \<open>prepare_content_data\<close> inside the standard lane, both times with the categorizer's label
  of every row's text; the enhanced lane does not assign it.
\<close>

theorem category_column_written_twice:
  "get_profile_analysis ev u m flag w = Some (Some res, w') \<longrightarrow>
     (\<exists>tweets c w1 df.
        get_users_tweets ev u m (x_tweets_init ev) w = Some (Inr tweets, c, w1) \<and>
        tweets_to_dataframe tweets = Inr df \<and>
        column_writes (trace w') =
          column_writes (trace w) @
            [map (\<lambda>r. categorize_tweet (row_text r)) (rows df),
             map (\<lambda>r. categorize_tweet (row_text r)) (rows df)])"
proof
  assume "get_profile_analysis ev u m flag w = Some (Some res, w')"
  from get_profile_analysis_completed [OF this] obtain tweets c w1
    where f: "get_users_tweets ev u m (x_tweets_init ev) w = Some (Inr tweets, c, w1)"
      and a: "analysis_steps ev u flag tweets w1 = (Some res, w')" by blast
  from analysis_steps_completed [OF a] obtain df
    where df: "tweets_to_dataframe tweets = Inr df"
      and cw: "column_writes (trace w') = column_writes (trace w1) @
             [map (\<lambda>r. categorize_tweet (row_text r)) (rows df),
              map (\<lambda>r. categorize_tweet (row_text r)) (rows df)]"
    by blast
  from get_users_tweets_frame [OF f] cw have
    "column_writes (trace w') = column_writes (trace w) @
             [map (\<lambda>r. categorize_tweet (row_text r)) (rows df),
              map (\<lambda>r. categorize_tweet (row_text r)) (rows df)]" by simp
  with f df show "\<exists>tweets c w1 df.
        get_users_tweets ev u m (x_tweets_init ev) w = Some (Inr tweets, c, w1) \<and>
        tweets_to_dataframe tweets = Inr df \<and>
        column_writes (trace w') =
          column_writes (trace w) @
            [map (\<lambda>r. categorize_tweet (row_text r)) (rows df),
             map (\<lambda>r. categorize_tweet (row_text r)) (rows df)]" by blast
qed

theorem category_column_written_twice_witness:
  "\<exists>res w' df.
     get_profile_analysis quick_env ''someone'' 10 True (initial_world 100) = Some (Some res, w') \<and>
     tweets_to_dataframe sample_tweets = Inr df \<and>
     column_writes (trace w') =
       [map (\<lambda>r. categorize_tweet (row_text r)) (rows df),
        map (\<lambda>r. categorize_tweet (row_text r)) (rows df)]"
proof -
  obtain res w' where r: "get_profile_analysis quick_env ''someone'' 10 True (initial_world 100) = Some (Some res, w')"
    using quick_run_completes by blast
  from category_column_written_twice
         [of quick_env "''someone''" 10 True "initial_world 100" res w', THEN mp, OF r]
  obtain df where "tweets_to_dataframe sample_tweets = Inr df"
    "column_writes (trace w') = column_writes (trace (initial_world 100)) @
       [map (\<lambda>r. categorize_tweet (row_text r)) (rows df),
        map (\<lambda>r. categorize_tweet (row_text r)) (rows df)]"
    using fetch_quick by auto
  with r show ?thesis by (auto simp: initial_world_def)
qed

section \<open>Properties of the rate-limited client\<close>


lemma user_calls_append: "user_calls (xs @ ys) = user_calls xs @ user_calls ys"
  by (induction xs rule: user_calls.induct) auto


lemma client_inv_sleep [simp]: "client_inv self (sleep d w) = client_inv self w"
  by (simp add: client_inv_def sleep_def)

lemma client_inv_timeline [simp]: "client_inv self (issue ev GetUsersTweets w) = client_inv self w"
  by (simp add: client_inv_def issue_def user_calls_append)




























end
